theory Spec2Isabelle
  imports Main "HOL-Library.Char_ord" "HOL-Library.List_Lexorder" "HOL-Library.Sublist"
begin

section \<open>The declaration capture server (package codeconfig)\<close>

subsection \<open>Protocol messages\<close>

text \<open>
  The messages come from the protocol package \<^verbatim>\<open>pb\<close>, which the server imports.
  A \<^verbatim>\<open>oneof\<close> field is an option of a datatype with one constructor per alternative,
  a message pointer that may be nil is an option.
\<close>

record ApiWorker =
  ApiWorker_Api :: string
  ApiWorker_Path :: string
  ApiWorker_Methods :: "string list"

record ScheduleWorker =
  ScheduleWorker_Key :: string
  ScheduleWorker_Cron :: string

record SubscriptionWorker =
  SubscriptionWorker_Topic :: string

datatype Worker =
    InitRequest_Api ApiWorker
  | InitRequest_Schedule ScheduleWorker
  | InitRequest_Subscription SubscriptionWorker

datatype InitRequest = InitRequest (Worker: "Worker option")

datatype ClientContent =
    ClientMessage_InitRequest InitRequest
  | ClientMessage_TriggerResponse string

datatype ClientMessage = ClientMessage (Id: string) (Content: "ClientContent option")

datatype ServerMessage = ServerMessage string

text \<open>
  \<^verbatim>\<open>ResourceType\<close> is an open protobuf enumeration. The seven values that
  \<^verbatim>\<open>Declare\<close> names are constructors of their own; \<open>ResourceType_Other n\<close> is any
  other value of the enumeration.
\<close>

datatype ResourceType =
    ResourceType_Bucket
  | ResourceType_Collection
  | ResourceType_Queue
  | ResourceType_Topic
  | ResourceType_Policy
  | ResourceType_Secret
  | ResourceType_Api
  | ResourceType_Other int

record Resource =
  Resource_Type :: ResourceType
  Resource_Name :: string

record PolicyResource =
  Policy_Principals :: "Resource list"
  Policy_Actions :: "string list"
  Policy_Resources :: "Resource list"

record ApiResource =
  SecurityDefinitions :: "(string \<times> string) list"
  Security :: "(string \<times> string list) list"

datatype ResourceConfig =
    Config_Bucket
  | Config_Queue
  | Config_Topic
  | Config_Collection
  | Config_Secret
  | Config_Policy PolicyResource
  | Config_Api ApiResource

record ResourceDeclareRequest =
  Declare_Resource :: "Resource option"
  Declare_Config :: "ResourceConfig option"

datatype ResourceDeclareResponse = ResourceDeclareResponse

record ResourceDetailsRequest =
  Details_Resource :: "Resource option"

record ResourceDetailsResponse =
  Response_Id :: string
  Response_Provider :: string
  Response_Service :: string
  Response_ApiUrl :: string

text \<open>The generated getters return nil when the \<^verbatim>\<open>oneof\<close> holds another alternative.\<close>

definition GetInitRequest :: "ClientMessage \<Rightarrow> InitRequest option" where
  "GetInitRequest cm =
     (case Content cm of
        Some (ClientMessage_InitRequest ir) \<Rightarrow> Some ir
      | _ \<Rightarrow> None)"

definition GetBucket :: "ResourceDeclareRequest \<Rightarrow> unit option" where
  "GetBucket req = (case Declare_Config req of Some Config_Bucket \<Rightarrow> Some () | _ \<Rightarrow> None)"

definition GetCollection :: "ResourceDeclareRequest \<Rightarrow> unit option" where
  "GetCollection req = (case Declare_Config req of Some Config_Collection \<Rightarrow> Some () | _ \<Rightarrow> None)"

definition GetQueue :: "ResourceDeclareRequest \<Rightarrow> unit option" where
  "GetQueue req = (case Declare_Config req of Some Config_Queue \<Rightarrow> Some () | _ \<Rightarrow> None)"

definition GetTopic :: "ResourceDeclareRequest \<Rightarrow> unit option" where
  "GetTopic req = (case Declare_Config req of Some Config_Topic \<Rightarrow> Some () | _ \<Rightarrow> None)"

definition GetSecret :: "ResourceDeclareRequest \<Rightarrow> unit option" where
  "GetSecret req = (case Declare_Config req of Some Config_Secret \<Rightarrow> Some () | _ \<Rightarrow> None)"

definition GetPolicy :: "ResourceDeclareRequest \<Rightarrow> PolicyResource option" where
  "GetPolicy req = (case Declare_Config req of Some (Config_Policy p) \<Rightarrow> Some p | _ \<Rightarrow> None)"

definition GetApi :: "ResourceDeclareRequest \<Rightarrow> ApiResource option" where
  "GetApi req = (case Declare_Config req of Some (Config_Api a) \<Rightarrow> Some a | _ \<Rightarrow> None)"

subsection \<open>Errors and results\<close>

text \<open>
  A Go \<^verbatim>\<open>error\<close> is a value. \<open>Status c m\<close> is \<^verbatim>\<open>status.Error(c, m)\<close>,
  \<open>Errorf fmt t\<close> is \<^verbatim>\<open>fmt.Errorf(fmt, t)\<close> with its resource-type argument, and
  \<open>External m\<close> is an error that a collaborator outside the repository hands back.
  A call ends by returning a value, by returning an error, or by panicking.
\<close>

datatype Code = Internal | FailedPrecondition

datatype error =
    Status Code string
  | Errorf string ResourceType
  | External string

datatype failure = Err error | Panic string

datatype 'a result = Ok 'a | Fail failure

subsection \<open>The per-function accumulator\<close>

text \<open>
  Modelled from the spec: the type \<^verbatim>\<open>FunctionDependencies\<close> and its methods
  (\<^verbatim>\<open>AddApiHandler\<close>, \<^verbatim>\<open>AddScheduleHandler\<close>, \<^verbatim>\<open>AddSubscriptionHandler\<close>,
  \<^verbatim>\<open>AddBucket\<close>, \<^verbatim>\<open>AddCollection\<close>, \<^verbatim>\<open>AddQueue\<close>, \<^verbatim>\<open>AddTopic\<close>,
  \<^verbatim>\<open>AddPolicy\<close>, \<^verbatim>\<open>AddSecret\<close>, \<^verbatim>\<open>AddApiSecurityDefinitions\<close>,
  \<^verbatim>\<open>AddApiSecurity\<close>) are not among the source files; only their calls are. The
  spec gives the accumulator a set of API route bindings, a set of schedule bindings, a
  set of subscription bindings and a set of declared resources keyed by kind and name,
  created empty, where declaring the same kind and name with the same metadata again
  changes nothing. A policy is declared without a name, so policies are a set of their
  own.
\<close>

datatype Metadata =
    Meta_Plain "unit option"
  | Meta_Api "(string \<times> string) list" "(string \<times> string list) list"

record FunctionDependencies =
  apis :: "ApiWorker set"
  schedules :: "ScheduleWorker set"
  subscriptions :: "SubscriptionWorker set"
  resources :: "ResourceType \<times> string \<rightharpoonup> Metadata"
  policies :: "PolicyResource option set"

definition NewFunction :: FunctionDependencies where
  "NewFunction =
     \<lparr>apis = {}, schedules = {}, subscriptions = {}, resources = Map.empty, policies = {}\<rparr>"

text \<open>
  Modelled from the spec: the three handler methods, whose bodies are not among the source
  files. Each records the binding it is given in the set of its kind; the source shows
  that each returns an error value, and the spec names no case in which they fail.
\<close>

definition AddApiHandler ::
  "FunctionDependencies \<Rightarrow> ApiWorker \<Rightarrow> error option \<times> FunctionDependencies" where
  "AddApiHandler d w = (None, d\<lparr>apis := insert w (apis d)\<rparr>)"

definition AddScheduleHandler ::
  "FunctionDependencies \<Rightarrow> ScheduleWorker \<Rightarrow> error option \<times> FunctionDependencies" where
  "AddScheduleHandler d w = (None, d\<lparr>schedules := insert w (schedules d)\<rparr>)"

definition AddSubscriptionHandler ::
  "FunctionDependencies \<Rightarrow> SubscriptionWorker \<Rightarrow> error option \<times> FunctionDependencies" where
  "AddSubscriptionHandler d w = (None, d\<lparr>subscriptions := insert w (subscriptions d)\<rparr>)"

text \<open>
  Modelled from the spec: the methods that record a declared resource, whose bodies are
  not among the source files. Each stores the metadata it is given under the kind and the
  name, so that declaring the same resource with the same metadata twice is the same as
  declaring it once. The two Api methods each set their half of the metadata of the Api.
\<close>

definition AddResource ::
  "ResourceType \<Rightarrow> FunctionDependencies \<Rightarrow> string \<Rightarrow> unit option \<Rightarrow> FunctionDependencies" where
  "AddResource k d n m = d\<lparr>resources := (resources d)((k, n) \<mapsto> Meta_Plain m)\<rparr>"

definition AddBucket :: "FunctionDependencies \<Rightarrow> string \<Rightarrow> unit option \<Rightarrow> FunctionDependencies" where
  "AddBucket = AddResource ResourceType_Bucket"

definition AddCollection :: "FunctionDependencies \<Rightarrow> string \<Rightarrow> unit option \<Rightarrow> FunctionDependencies" where
  "AddCollection = AddResource ResourceType_Collection"

definition AddQueue :: "FunctionDependencies \<Rightarrow> string \<Rightarrow> unit option \<Rightarrow> FunctionDependencies" where
  "AddQueue = AddResource ResourceType_Queue"

definition AddTopic :: "FunctionDependencies \<Rightarrow> string \<Rightarrow> unit option \<Rightarrow> FunctionDependencies" where
  "AddTopic = AddResource ResourceType_Topic"

definition AddSecret :: "FunctionDependencies \<Rightarrow> string \<Rightarrow> unit option \<Rightarrow> FunctionDependencies" where
  "AddSecret = AddResource ResourceType_Secret"

definition AddPolicy :: "FunctionDependencies \<Rightarrow> PolicyResource option \<Rightarrow> FunctionDependencies" where
  "AddPolicy d p = d\<lparr>policies := insert p (policies d)\<rparr>"

definition ApiMeta ::
  "FunctionDependencies \<Rightarrow> string \<Rightarrow> (string \<times> string) list \<times> (string \<times> string list) list" where
  "ApiMeta d n =
     (case resources d (ResourceType_Api, n) of
        Some (Meta_Api defs sec) \<Rightarrow> (defs, sec)
      | _ \<Rightarrow> ([], []))"

definition AddApiSecurityDefinitions ::
  "FunctionDependencies \<Rightarrow> string \<Rightarrow> (string \<times> string) list \<Rightarrow> FunctionDependencies" where
  "AddApiSecurityDefinitions d n defs =
     d\<lparr>resources := (resources d)((ResourceType_Api, n) \<mapsto> Meta_Api defs (snd (ApiMeta d n)))\<rparr>"

definition AddApiSecurity ::
  "FunctionDependencies \<Rightarrow> string \<Rightarrow> (string \<times> string list) list \<Rightarrow> FunctionDependencies" where
  "AddApiSecurity d n sec =
     d\<lparr>resources := (resources d)((ResourceType_Api, n) \<mapsto> Meta_Api (fst (ApiMeta d n)) sec)\<rparr>"

text \<open>
  Modelled from the spec: a resource is declared on an accumulator when its kind and name
  are a key of the declared resources.
\<close>

definition declared :: "FunctionDependencies \<Rightarrow> ResourceType \<Rightarrow> string \<Rightarrow> bool" where
  "declared d k n = (resources d (k, n) \<noteq> None)"

subsection \<open>The server\<close>

text \<open>
  The server holds a name and a pointer to the accumulator of its function; a method that
  mutates the accumulator returns the new one. A stream is the list of messages the
  client still has to deliver and the list of messages the server has sent; \<^verbatim>\<open>Recv\<close>
  on a stream with nothing left returns an error.
\<close>

record Server =
  Server_name :: string
  Server_function :: FunctionDependencies

definition NewServer :: "string \<Rightarrow> FunctionDependencies \<Rightarrow> Server" where
  "NewServer n f = \<lparr>Server_name = n, Server_function = f\<rparr>"

record Stream =
  incoming :: "ClientMessage list"
  sent :: "ServerMessage list"

definition Recv :: "Stream \<Rightarrow> (string + ClientMessage) \<times> Stream" where
  "Recv st =
     (case incoming st of
        [] \<Rightarrow> (Inl ''EOF'', st)
      | cm # rest \<Rightarrow> (Inr cm, st\<lparr>incoming := rest\<rparr>))"

definition TriggerStream ::
  "Server \<Rightarrow> Stream \<Rightarrow> error option \<times> Stream \<times> FunctionDependencies" where
  "TriggerStream s stream =
     (case Recv stream of
        (Inl err, stream') \<Rightarrow>
          (Some (Status Internal (''error reading message from stream: '' @ err)),
           stream', Server_function s)
      | (Inr cm, stream') \<Rightarrow>
          (case GetInitRequest cm of
             None \<Rightarrow>
               (Some (Status FailedPrecondition ''first message must be InitRequest''),
                stream', Server_function s)
           | Some ir \<Rightarrow>
               (case Worker ir of
                  Some (InitRequest_Api w) \<Rightarrow>
                    (case AddApiHandler (Server_function s) w of (e, d) \<Rightarrow> (e, stream', d))
                | Some (InitRequest_Schedule w) \<Rightarrow>
                    (case AddScheduleHandler (Server_function s) w of (e, d) \<Rightarrow> (e, stream', d))
                | Some (InitRequest_Subscription w) \<Rightarrow>
                    (case AddSubscriptionHandler (Server_function s) w of (e, d) \<Rightarrow> (e, stream', d))
                | None \<Rightarrow> (None, stream', Server_function s))))"

text \<open>
  \<^verbatim>\<open>Declare\<close> reads \<^verbatim>\<open>req.Resource.Type\<close> through the pointer, which panics on a
  nil resource, and in the Api case reads a field of \<^verbatim>\<open>req.GetApi()\<close>, which panics
  when the request carries another configuration. The switch has no default case.
\<close>

definition Declare ::
  "Server \<Rightarrow> ResourceDeclareRequest \<Rightarrow> ResourceDeclareResponse result \<times> FunctionDependencies" where
  "Declare s req =
     (case Declare_Resource req of
        None \<Rightarrow> (Fail (Panic ''nil pointer dereference''), Server_function s)
      | Some r \<Rightarrow>
          (case Resource_Type r of
             ResourceType_Bucket \<Rightarrow>
               (Ok ResourceDeclareResponse,
                AddBucket (Server_function s) (Resource_Name r) (GetBucket req))
           | ResourceType_Collection \<Rightarrow>
               (Ok ResourceDeclareResponse,
                AddCollection (Server_function s) (Resource_Name r) (GetCollection req))
           | ResourceType_Queue \<Rightarrow>
               (Ok ResourceDeclareResponse,
                AddQueue (Server_function s) (Resource_Name r) (GetQueue req))
           | ResourceType_Topic \<Rightarrow>
               (Ok ResourceDeclareResponse,
                AddTopic (Server_function s) (Resource_Name r) (GetTopic req))
           | ResourceType_Policy \<Rightarrow>
               (Ok ResourceDeclareResponse, AddPolicy (Server_function s) (GetPolicy req))
           | ResourceType_Secret \<Rightarrow>
               (Ok ResourceDeclareResponse,
                AddSecret (Server_function s) (Resource_Name r) (GetSecret req))
           | ResourceType_Api \<Rightarrow>
               (case GetApi req of
                  None \<Rightarrow> (Fail (Panic ''nil pointer dereference''), Server_function s)
                | Some a \<Rightarrow>
                    (Ok ResourceDeclareResponse,
                     AddApiSecurity
                       (AddApiSecurityDefinitions (Server_function s) (Resource_Name r)
                          (SecurityDefinitions a))
                       (Resource_Name r) (Security a)))
           | ResourceType_Other n \<Rightarrow> (Ok ResourceDeclareResponse, Server_function s)))"

definition Details :: "Server \<Rightarrow> ResourceDetailsRequest \<Rightarrow> ResourceDetailsResponse result" where
  "Details s req =
     (case Details_Resource req of
        None \<Rightarrow> Fail (Panic ''nil pointer dereference'')
      | Some r \<Rightarrow>
          (case Resource_Type r of
             ResourceType_Api \<Rightarrow>
               Ok \<lparr>Response_Id = Resource_Name r,
                   Response_Provider = ''dev'',
                   Response_Service = ''Api'',
                   Response_ApiUrl = ''http://localhost:50051/apis/'' @ Resource_Name r\<rparr>
           | t \<Rightarrow> Fail (Err (Errorf ''unsupported resource type %s'' t))))"

text \<open>The kinds that \<^verbatim>\<open>Declare\<close> recognises.\<close>

definition recognized :: "ResourceType set" where
  "recognized =
     {ResourceType_Bucket, ResourceType_Collection, ResourceType_Queue, ResourceType_Topic,
      ResourceType_Secret, ResourceType_Policy, ResourceType_Api}"

section \<open>The dependency graph and its merge\<close>

text \<open>
  Modelled from the spec: the merge that builds the project-wide graph is not among the
  source files. The spec makes a resource claim a kind, a name, the requesting function
  and an access mode; the merge goes through every claim, groups the claims by kind and
  name, and gives each group one graph resource whose policy set is the union of the
  access modes of the functions that claim it.
\<close>

record ResourceClaim =
  claim_kind :: ResourceType
  claim_name :: string
  claim_function :: string
  claim_mode :: string

type_synonym DependencyGraph = "ResourceType \<times> string \<rightharpoonup> (string \<times> string) set"

definition policy_set :: "DependencyGraph \<Rightarrow> ResourceType \<times> string \<Rightarrow> (string \<times> string) set" where
  "policy_set g k = (case g k of None \<Rightarrow> {} | Some ps \<Rightarrow> ps)"

definition add_claim :: "ResourceClaim \<Rightarrow> DependencyGraph \<Rightarrow> DependencyGraph" where
  "add_claim c g =
     g((claim_kind c, claim_name c) \<mapsto>
         insert (claim_function c, claim_mode c) (policy_set g (claim_kind c, claim_name c)))"

definition merge_into :: "DependencyGraph \<Rightarrow> ResourceClaim list \<Rightarrow> DependencyGraph" where
  "merge_into g cs = fold add_claim cs g"

definition merge_claims :: "ResourceClaim list \<Rightarrow> DependencyGraph" where
  "merge_claims cs = merge_into Map.empty cs"

section \<open>Image builds (package build)\<close>

subsection \<open>The project and the collaborators\<close>

text \<open>
  The project, its functions and containers, and the target come from packages that are
  not among the source files; they are records of the fields the build passes read.
  \<open>Project_Functions\<close> and \<open>Project_Containers\<close> list the functions and containers
  in the order the \<^verbatim>\<open>range\<close> loops visit them.
\<close>

record Function =
  Function_Name :: string
  Function_Handler :: string

record Container =
  Container_Name :: string
  Container_Dockerfile :: string

record Project =
  Project_Name :: string
  Project_Dir :: string
  Project_Functions :: "Function list"
  Project_Containers :: "Container list"

record Target =
  Target_Provider :: string

text \<open>
  A build descriptor handed to the container engine is either a temporary file of the
  project directory, named by the random number that \<^verbatim>\<open>os.CreateTemp\<close> puts in place
  of the star of \<^verbatim>\<open>nitric.dynamic.Dockerfile.*\<close>, or a Dockerfile of the project.
\<close>

datatype Dockerfile = TempDockerfile nat | ProjectDockerfile string

text \<open>
  The calls that leave the package are fields of an environment: the container engine
  (\<^verbatim>\<open>Discover\<close>, \<^verbatim>\<open>Build\<close>), the runtime package (\<^verbatim>\<open>NewRunTimeFromHandler\<close> and
  the methods of the runtime it returns, which write into the temporary file they are
  given), the naming methods of functions and containers, and \<^verbatim>\<open>os.CreateTemp\<close>,
  which is given the directory and the temporary files present in it. Each call returns,
  fails with an error, or panics.
\<close>

record 'rt Env =
  Discover :: "unit result"
  NewRunTimeFromHandler :: "string \<Rightarrow> 'rt result"
  FunctionDockerfile :: "'rt \<Rightarrow> string \<Rightarrow> string \<Rightarrow> string \<Rightarrow> nat \<Rightarrow> unit result"
  FunctionDockerfileForCodeAsConfig :: "'rt \<Rightarrow> nat \<Rightarrow> unit result"
  DevImageName :: "'rt \<Rightarrow> string"
  Build :: "Dockerfile \<Rightarrow> string \<Rightarrow> string \<Rightarrow> (string \<times> string) list \<Rightarrow> unit result"
  CreateTemp :: "string \<Rightarrow> nat set \<Rightarrow> nat result"
  VersionString :: "Function \<Rightarrow> Project \<Rightarrow> string"
  Function_ImageTagName :: "Function \<Rightarrow> Project \<Rightarrow> string \<Rightarrow> string"
  Container_ImageTagName :: "Container \<Rightarrow> Project \<Rightarrow> string \<Rightarrow> string"

text \<open>
  The world a pass acts on: the temporary descriptor files present in the project
  directory, and the log of the calls made to \<^verbatim>\<open>Build\<close>. \<open>origin\<close> is bookkeeping
  of the model, not an argument of \<^verbatim>\<open>Build\<close>: the handler of the function, or the
  name of the container, on whose behalf the call is made.
\<close>

record BuildCall =
  origin :: string
  dockerfile :: Dockerfile
  contextDir :: string
  tag :: string
  buildArgs :: "(string \<times> string) list"

record World =
  files :: "nat set"
  builds :: "BuildCall list"

definition create_file :: "nat \<Rightarrow> World \<Rightarrow> World" where
  "create_file fh w = w\<lparr>files := insert fh (files w)\<rparr>"

definition os_Remove :: "nat \<Rightarrow> World \<Rightarrow> World" where
  "os_Remove fh w = w\<lparr>files := files w - {fh}\<rparr>"

definition log_build :: "BuildCall \<Rightarrow> World \<Rightarrow> World" where
  "log_build c w = w\<lparr>builds := builds w @ [c]\<rparr>"

text \<open>
  Every \<^verbatim>\<open>defer\<close> of the two passes removes one temporary file, so the deferred calls
  of a running pass are a list of file names, the latest first. They run, latest first,
  when the pass returns or panics. \<^verbatim>\<open>os.Remove\<close> takes the file out of the
  directory; the passes ignore its result. Closing a file handle changes neither the
  directory nor the log and is left out.
\<close>

definition run_deferred :: "nat list \<Rightarrow> World \<Rightarrow> World" where
  "run_deferred ds w = fold os_Remove ds w"

definition new_builds :: "World \<Rightarrow> World \<Rightarrow> BuildCall list" where
  "new_builds w w' = drop (length (builds w)) (builds w')"

subsection \<open>The deployable-image pass\<close>

definition function_call :: "'rt Env \<Rightarrow> Project \<Rightarrow> Target \<Rightarrow> Function \<Rightarrow> nat \<Rightarrow> BuildCall" where
  "function_call env s t f fh =
     \<lparr>origin = Function_Handler f, dockerfile = TempDockerfile fh,
      contextDir = Project_Dir s,
      tag = Function_ImageTagName env f s (Target_Provider t),
      buildArgs = [(''PROVIDER'', Target_Provider t)]\<rparr>"

definition container_call :: "'rt Env \<Rightarrow> Project \<Rightarrow> Target \<Rightarrow> Container \<Rightarrow> BuildCall" where
  "container_call env s t c =
     \<lparr>origin = Container_Name c,
      dockerfile = ProjectDockerfile (Project_Dir s @ ''/'' @ Container_Dockerfile c),
      contextDir = Project_Dir s,
      tag = Container_ImageTagName env c s (Target_Provider t),
      buildArgs = [(''PROVIDER'', Target_Provider t)]\<rparr>"

definition do_Build :: "'rt Env \<Rightarrow> BuildCall \<Rightarrow> unit result" where
  "do_Build env c = Build env (dockerfile c) (contextDir c) (tag c) (buildArgs c)"

fun Create_functions ::
  "'rt Env \<Rightarrow> Project \<Rightarrow> Target \<Rightarrow> Function list \<Rightarrow> World \<Rightarrow> nat list \<Rightarrow>
     unit result \<times> World \<times> nat list" where
  "Create_functions env s t [] w ds = (Ok (), w, ds)"
| "Create_functions env s t (f # fs) w ds =
     (case CreateTemp env (Project_Dir s) (files w) of
        Fail x \<Rightarrow> (Fail x, w, ds)
      | Ok fh \<Rightarrow>
          (case NewRunTimeFromHandler env (Function_Handler f) of
             Fail x \<Rightarrow> (Fail x, create_file fh w, fh # ds)
           | Ok rt \<Rightarrow>
               (case FunctionDockerfile env rt (Project_Dir s) (VersionString env f s)
                       (Target_Provider t) fh of
                  Fail x \<Rightarrow> (Fail x, create_file fh w, fh # ds)
                | Ok _ \<Rightarrow>
                    (case do_Build env (function_call env s t f fh) of
                       Fail x \<Rightarrow>
                         (Fail x, log_build (function_call env s t f fh) (create_file fh w),
                          fh # ds)
                     | Ok _ \<Rightarrow>
                         Create_functions env s t fs
                           (log_build (function_call env s t f fh) (create_file fh w))
                           (fh # ds)))))"

fun Create_containers ::
  "'rt Env \<Rightarrow> Project \<Rightarrow> Target \<Rightarrow> Container list \<Rightarrow> World \<Rightarrow> unit result \<times> World" where
  "Create_containers env s t [] w = (Ok (), w)"
| "Create_containers env s t (c # cs) w =
     (case do_Build env (container_call env s t c) of
        Fail x \<Rightarrow> (Fail x, log_build (container_call env s t c) w)
      | Ok _ \<Rightarrow> Create_containers env s t cs (log_build (container_call env s t c) w))"

definition Create :: "'rt Env \<Rightarrow> Project \<Rightarrow> Target \<Rightarrow> World \<Rightarrow> unit result \<times> World" where
  "Create env s t w =
     (case Discover env of
        Fail x \<Rightarrow> (Fail x, w)
      | Ok _ \<Rightarrow>
          (case Create_functions env s t (Project_Functions s) w [] of
             (Fail x, w1, ds) \<Rightarrow> (Fail x, run_deferred ds w1)
           | (Ok _, w1, ds) \<Rightarrow>
               (case Create_containers env s t (Project_Containers s) w1 of
                  (r, w2) \<Rightarrow> (r, run_deferred ds w2))))"

subsection \<open>The shared dev-image pass\<close>

text \<open>
  \<^verbatim>\<open>filepath.Ext\<close> walks back from the end of the path to the last separator and
  returns the suffix that starts at the first dot it meets, or the empty string.
  \<^verbatim>\<open>strings.Replace(ext, ".", "", 1)\<close> drops the first dot of its argument.
\<close>

fun Ext_scan :: "string \<Rightarrow> string \<Rightarrow> string" where
  "Ext_scan [] acc = []"
| "Ext_scan (c # cs) acc =
     (if c = CHR ''/'' then []
      else if c = CHR ''.'' then c # acc
      else Ext_scan cs (c # acc))"

definition Ext :: "string \<Rightarrow> string" where
  "Ext path = Ext_scan (rev path) []"

definition lang_of :: "string \<Rightarrow> string" where
  "lang_of handler = remove1 (CHR ''.'') (Ext handler)"

definition dev_call :: "'rt Env \<Rightarrow> Project \<Rightarrow> Function \<Rightarrow> 'rt \<Rightarrow> nat \<Rightarrow> BuildCall" where
  "dev_call env s f rt fh =
     \<lparr>origin = Function_Handler f, dockerfile = TempDockerfile fh,
      contextDir = Project_Dir s, tag = DevImageName env rt, buildArgs = []\<rparr>"

fun CreateBaseDev_functions ::
  "'rt Env \<Rightarrow> Project \<Rightarrow> Function list \<Rightarrow> (string \<rightharpoonup> string) \<Rightarrow> World \<Rightarrow> nat list \<Rightarrow>
     unit result \<times> World \<times> nat list" where
  "CreateBaseDev_functions env s [] imagesToBuild w ds = (Ok (), w, ds)"
| "CreateBaseDev_functions env s (f # fs) imagesToBuild w ds =
     (case NewRunTimeFromHandler env (Function_Handler f) of
        Fail x \<Rightarrow> (Fail x, w, ds)
      | Ok rt \<Rightarrow>
          (if imagesToBuild (lang_of (Function_Handler f)) \<noteq> None
           then CreateBaseDev_functions env s fs imagesToBuild w ds
           else
             (case CreateTemp env (Project_Dir s) (files w) of
                Fail x \<Rightarrow> (Fail x, w, ds)
              | Ok fh \<Rightarrow>
                  (case FunctionDockerfileForCodeAsConfig env rt fh of
                     Fail x \<Rightarrow> (Fail x, create_file fh w, fh # ds)
                   | Ok _ \<Rightarrow>
                       (case do_Build env (dev_call env s f rt fh) of
                          Fail x \<Rightarrow>
                            (Fail x, log_build (dev_call env s f rt fh) (create_file fh w),
                             fh # ds)
                        | Ok _ \<Rightarrow>
                            CreateBaseDev_functions env s fs
                              (imagesToBuild(lang_of (Function_Handler f) \<mapsto> DevImageName env rt))
                              (log_build (dev_call env s f rt fh) (create_file fh w))
                              (fh # ds))))))"

definition CreateBaseDev :: "'rt Env \<Rightarrow> Project \<Rightarrow> World \<Rightarrow> unit result \<times> World" where
  "CreateBaseDev env s w =
     (case Discover env of
        Fail x \<Rightarrow> (Fail x, w)
      | Ok _ \<Rightarrow>
          (case CreateBaseDev_functions env s (Project_Functions s) Map.empty w [] of
             (r, w1, ds) \<Rightarrow> (r, run_deferred ds w1)))"


section \<open>Table output of maps (package output)\<close>

subsection \<open>Reflection\<close>

text \<open>
  \<^verbatim>\<open>printMap\<close> looks at its argument through package \<^verbatim>\<open>reflect\<close>. A kind is one
  of the kinds the code names, or one of the remaining ones, which the code treats alike.
  A value is a string, a struct with the name of its type and its fields in order, or a
  value of another kind with the name of its type and its printed form;
  \<open>OtherValue\<close> is used with kinds other than \<open>reflect_String\<close> and
  \<open>reflect_Struct\<close>.
\<close>

datatype Kind =
    reflect_Invalid
  | reflect_Bool
  | reflect_Int
  | reflect_Float
  | reflect_String
  | reflect_Ptr
  | reflect_Struct
  | reflect_Slice
  | reflect_Array
  | reflect_Func
  | reflect_Chan
  | reflect_Interface
  | reflect_Map

datatype Value =
    StringValue string
  | StructValue string "Value list"
  | OtherValue Kind string string

fun Value_Kind :: "Value \<Rightarrow> Kind" where
  "Value_Kind (StringValue s) = reflect_String"
| "Value_Kind (StructValue ty fs) = reflect_Struct"
| "Value_Kind (OtherValue k ty d) = k"

text \<open>
  \<^verbatim>\<open>Value.String\<close> returns the string of a value of kind String, and for a value of
  any other kind a text made of the name of its type.
\<close>

fun Value_String :: "Value \<Rightarrow> string" where
  "Value_String (StringValue s) = s"
| "Value_String (StructValue ty fs) = ''<'' @ ty @ '' Value>''"
| "Value_String (OtherValue k ty d) = ''<'' @ ty @ '' Value>''"

fun Value_Fields :: "Value \<Rightarrow> Value list" where
  "Value_Fields (StructValue ty fs) = fs"
| "Value_Fields v = []"

record StructField =
  Field_Tag :: "(string \<times> string) list"

datatype Type = Type (Type_Kind: Kind) (Type_Fields: "StructField list")

definition Tag_Get :: "(string \<times> string) list \<Rightarrow> string \<Rightarrow> string" where
  "Tag_Get tg key = (case map_of tg key of None \<Rightarrow> [] | Some v \<Rightarrow> v)"

fun Split :: "string \<Rightarrow> char \<Rightarrow> string list" where
  "Split [] sep = [[]]"
| "Split (c # cs) sep =
     (if c = sep then [] # Split cs sep
      else (case Split cs sep of [] \<Rightarrow> [[c]] | p # ps \<Rightarrow> (c # p) # ps))"

text \<open>
  A map is its element type and its entries in the order in which \<^verbatim>\<open>MapRange\<close>
  delivers them, an order that Go leaves open. \<^verbatim>\<open>MapIndex\<close> returns the zero value
  for a key that is not in the map.
\<close>

record MapObject =
  Map_Elem :: Type
  Map_Entries :: "(Value \<times> Value) list"

definition MapIndex :: "MapObject \<Rightarrow> Value \<Rightarrow> Value" where
  "MapIndex object k =
     (case map_of (Map_Entries object) k of
        None \<Rightarrow> OtherValue reflect_Invalid ''invalid'' []
      | Some v \<Rightarrow> v)"

subsection \<open>Rows of the table\<close>

definition tags :: "StructField \<Rightarrow> string list" where
  "tags f =
     (if Field_Tag f \<noteq> [] then
        (if Tag_Get (Field_Tag f) ''yaml'' \<noteq> [] then Split (Tag_Get (Field_Tag f) ''yaml'') (CHR '','')
         else if Tag_Get (Field_Tag f) ''json'' \<noteq> [] then Split (Tag_Get (Field_Tag f) ''json'') (CHR '','')
         else [])
      else [])"

definition nameFromField :: "StructField \<Rightarrow> string" where
  "nameFromField f = (case tags f of [] \<Rightarrow> [] | n # ns \<Rightarrow> n)"

definition not_yet_supported :: "Kind \<Rightarrow> bool" where
  "not_yet_supported k =
     (k = reflect_Slice \<or> k = reflect_Array \<or> k = reflect_Func \<or> k = reflect_Chan \<or>
      k = reflect_Interface \<or> k = reflect_Map)"

definition namesFrom :: "Type \<Rightarrow> string list" where
  "namesFrom t =
     (if Type_Kind t = reflect_Struct
      then filter (\<lambda>name. name \<noteq> []) (map nameFromField (Type_Fields t))
      else if not_yet_supported (Type_Kind t) then []
      else [''value''])"

text \<open>
  The row of a struct starts with the key and takes fields while it is not longer than
  the list of names. A value of a kind that is not yet supported gives no row.
\<close>

definition struct_row :: "string list \<Rightarrow> Value \<Rightarrow> Value \<Rightarrow> Value list" where
  "struct_row names k v =
     fold (\<lambda>field row. if length row \<le> length names then row @ [field] else row)
       (Value_Fields v) [k]"

definition rows_of :: "string list \<Rightarrow> MapObject \<Rightarrow> Value \<Rightarrow> Value list list" where
  "rows_of names object k =
     (let v = MapIndex object k in
      if Value_Kind v = reflect_Struct then [struct_row names k v]
      else if not_yet_supported (Value_Kind v) then []
      else [[k, v]])"

text \<open>
  \<^verbatim>\<open>sort.SliceStable\<close> with the comparison of the keys' strings is the stable sort by
  that string; Go compares strings byte by byte, as the order on \<open>string\<close> does.
  \<^verbatim>\<open>printMap\<close> hands a header and a list of rows to the table writer.
\<close>

definition printMap :: "MapObject \<Rightarrow> string list \<times> Value list list" where
  "printMap object =
     (let names = namesFrom (Map_Elem object);
          keyList = map fst (Map_Entries object);
          sorted = sort_key Value_String keyList
      in (''key'' # names, concat (map (rows_of names object) sorted)))"

text \<open>The keys of a map of strings, and two iteration orders of one map.\<close>

definition string_keys :: "MapObject \<Rightarrow> bool" where
  "string_keys object = (\<forall>k \<in> set (map fst (Map_Entries object)). \<exists>s. k = StringValue s)"

definition same_map :: "MapObject \<Rightarrow> MapObject \<Rightarrow> bool" where
  "same_map a b =
     (Map_Elem a = Map_Elem b \<and>
      distinct (map fst (Map_Entries a)) \<and> distinct (map fst (Map_Entries b)) \<and>
      set (Map_Entries a) = set (Map_Entries b))"

section \<open>Example inputs\<close>

definition example_env :: "string Env" where
  "example_env =
     \<lparr>Discover = Ok (),
      NewRunTimeFromHandler = (\<lambda>h. Ok (lang_of h)),
      FunctionDockerfile = (\<lambda>rt dir version provider fh. Ok ()),
      FunctionDockerfileForCodeAsConfig = (\<lambda>rt fh. Ok ()),
      DevImageName = (\<lambda>rt. rt @ ''-dev''),
      Build = (\<lambda>df dir tg args.
                 if tg = ''a'' then Fail (Err (External ''build failed'')) else Ok ()),
      CreateTemp = (\<lambda>dir fs. Ok (Suc (Max (insert 0 fs)))),
      VersionString = (\<lambda>f s. ''latest''),
      Function_ImageTagName = (\<lambda>f s provider. Function_Name f),
      Container_ImageTagName = (\<lambda>c s provider. Container_Name c)\<rparr>"

definition example_project :: Project where
  "example_project =
     \<lparr>Project_Name = ''p'', Project_Dir = ''dir'',
      Project_Functions =
        [\<lparr>Function_Name = ''a'', Function_Handler = ''functions/a.ts''\<rparr>,
         \<lparr>Function_Name = ''b'', Function_Handler = ''functions/b.ts''\<rparr>],
      Project_Containers = []\<rparr>"

definition example_target :: Target where
  "example_target = \<lparr>Target_Provider = ''aws''\<rparr>"

definition empty_world :: World where
  "empty_world = \<lparr>files = {}, builds = []\<rparr>"

section \<open>Properties of the capture server\<close>

text \<open>
  C1: when the first message received on a stream is not an InitRequest, TriggerStream
  returns the gRPC status FailedPrecondition with the text "first message must be
  InitRequest" (the protocol violation of the spec), it has read that one message and
  nothing more, it has sent nothing, and the accumulator of the function is the one it
  started with. Returning from the handler closes the stream; there is no second read.
\<close>

theorem TriggerStream_not_init:
  assumes "incoming stream = cm # rest" and "GetInitRequest cm = None"
  shows "TriggerStream s stream =
           (Some (Status FailedPrecondition ''first message must be InitRequest''),
            stream\<lparr>incoming := rest\<rparr>, Server_function s)"
  using assms by (simp add: TriggerStream_def Recv_def)

theorem TriggerStream_not_init_witness:
  "TriggerStream (NewServer ''f'' NewFunction)
     \<lparr>incoming = [ClientMessage ''1'' (Some (ClientMessage_TriggerResponse ''x''))],
      sent = []\<rparr> =
   (Some (Status FailedPrecondition ''first message must be InitRequest''),
    \<lparr>incoming = [], sent = []\<rparr>, NewFunction)"
  using TriggerStream_not_init
    [of "\<lparr>incoming = [ClientMessage ''1'' (Some (ClientMessage_TriggerResponse ''x''))],
          sent = []\<rparr>"
        "ClientMessage ''1'' (Some (ClientMessage_TriggerResponse ''x''))" "[]"
        "NewServer ''f'' NewFunction"]
  by (simp add: GetInitRequest_def NewServer_def)

text \<open>
  C2, as stated, fails: Declare has no error for a kind outside the recognised set. For
  the kind with number 1 it returns an empty response and no error.
\<close>

theorem Declare_unsupported_counterexample:
  "ResourceType_Other 1 \<notin> recognized \<and>
   fst (Declare (NewServer ''f'' NewFunction)
     \<lparr>Declare_Resource = Some \<lparr>Resource_Type = ResourceType_Other 1, Resource_Name = ''x''\<rparr>,
      Declare_Config = None\<rparr>) = Ok ResourceDeclareResponse"
  by (simp add: recognized_def Declare_def)

text \<open>
  C2, amended: for a declaration whose kind is not one of the recognised set, Declare
  returns the empty response without an error and leaves the accumulator of the function
  as it was.
\<close>

theorem Declare_unsupported:
  assumes "Declare_Resource req = Some r" and "Resource_Type r \<notin> recognized"
  shows "Declare s req = (Ok ResourceDeclareResponse, Server_function s)"
  using assms by (cases "Resource_Type r") (simp_all add: recognized_def Declare_def)

theorem Declare_unsupported_witness:
  "Declare (NewServer ''f'' (AddBucket NewFunction ''uploads'' None))
     \<lparr>Declare_Resource = Some \<lparr>Resource_Type = ResourceType_Other 5, Resource_Name = ''x''\<rparr>,
      Declare_Config = None\<rparr> =
   (Ok ResourceDeclareResponse, AddBucket NewFunction ''uploads'' None)"
  using Declare_unsupported
    [of "\<lparr>Declare_Resource = Some \<lparr>Resource_Type = ResourceType_Other 5, Resource_Name = ''x''\<rparr>,
          Declare_Config = None\<rparr>"
        "\<lparr>Resource_Type = ResourceType_Other 5, Resource_Name = ''x''\<rparr>"
        "NewServer ''f'' (AddBucket NewFunction ''uploads'' None)"]
  by (simp add: recognized_def NewServer_def)

text \<open>
  C4: when the first message is an InitRequest with an Api, a Schedule or a Subscription
  worker, TriggerStream adds that worker to the bindings of its kind on the accumulator
  and changes nothing else there, returns no error, has read that one message and nothing
  more, and has sent nothing.
\<close>

theorem TriggerStream_worker:
  assumes "incoming stream = cm # rest" and "GetInitRequest cm = Some ir"
  shows "(Worker ir = Some (InitRequest_Api a) \<longrightarrow>
            TriggerStream s stream =
              (None, stream\<lparr>incoming := rest\<rparr>,
               (Server_function s)\<lparr>apis := insert a (apis (Server_function s))\<rparr>)) \<and>
         (Worker ir = Some (InitRequest_Schedule b) \<longrightarrow>
            TriggerStream s stream =
              (None, stream\<lparr>incoming := rest\<rparr>,
               (Server_function s)\<lparr>schedules := insert b (schedules (Server_function s))\<rparr>)) \<and>
         (Worker ir = Some (InitRequest_Subscription c) \<longrightarrow>
            TriggerStream s stream =
              (None, stream\<lparr>incoming := rest\<rparr>,
               (Server_function s)
                 \<lparr>subscriptions := insert c (subscriptions (Server_function s))\<rparr>))"
  using assms
  by (simp add: TriggerStream_def Recv_def AddApiHandler_def AddScheduleHandler_def
      AddSubscriptionHandler_def)

theorem TriggerStream_worker_witness:
  "TriggerStream (NewServer ''f'' NewFunction)
     \<lparr>incoming =
        [ClientMessage ''1'' (Some (ClientMessage_InitRequest (InitRequest (Some
           (InitRequest_Api
              \<lparr>ApiWorker_Api = ''main'', ApiWorker_Path = ''/'', ApiWorker_Methods = [''GET'']\<rparr>))))),
         ClientMessage ''2'' None],
      sent = []\<rparr> =
   (None, \<lparr>incoming = [ClientMessage ''2'' None], sent = []\<rparr>,
    NewFunction\<lparr>apis :=
      {\<lparr>ApiWorker_Api = ''main'', ApiWorker_Path = ''/'', ApiWorker_Methods = [''GET'']\<rparr>}\<rparr>) \<and>
   TriggerStream (NewServer ''f'' NewFunction)
     \<lparr>incoming =
        [ClientMessage ''1'' (Some (ClientMessage_InitRequest (InitRequest (Some
           (InitRequest_Schedule
              \<lparr>ScheduleWorker_Key = ''nightly'', ScheduleWorker_Cron = ''0 0 * * *''\<rparr>)))))],
      sent = []\<rparr> =
   (None, \<lparr>incoming = [], sent = []\<rparr>,
    NewFunction\<lparr>schedules :=
      {\<lparr>ScheduleWorker_Key = ''nightly'', ScheduleWorker_Cron = ''0 0 * * *''\<rparr>}\<rparr>) \<and>
   TriggerStream (NewServer ''f'' NewFunction)
     \<lparr>incoming =
        [ClientMessage ''1'' (Some (ClientMessage_InitRequest (InitRequest (Some
           (InitRequest_Subscription \<lparr>SubscriptionWorker_Topic = ''orders''\<rparr>)))))],
      sent = []\<rparr> =
   (None, \<lparr>incoming = [], sent = []\<rparr>,
    NewFunction\<lparr>subscriptions := {\<lparr>SubscriptionWorker_Topic = ''orders''\<rparr>}\<rparr>)"
  using
    TriggerStream_worker
      [of "\<lparr>incoming =
             [ClientMessage ''1'' (Some (ClientMessage_InitRequest (InitRequest (Some
                (InitRequest_Api
                   \<lparr>ApiWorker_Api = ''main'', ApiWorker_Path = ''/'',
                    ApiWorker_Methods = [''GET'']\<rparr>))))),
              ClientMessage ''2'' None],
            sent = []\<rparr>"
          "ClientMessage ''1'' (Some (ClientMessage_InitRequest (InitRequest (Some
             (InitRequest_Api
                \<lparr>ApiWorker_Api = ''main'', ApiWorker_Path = ''/'',
                 ApiWorker_Methods = [''GET'']\<rparr>)))))"
          "[ClientMessage ''2'' None]"
          "InitRequest (Some (InitRequest_Api
             \<lparr>ApiWorker_Api = ''main'', ApiWorker_Path = ''/'', ApiWorker_Methods = [''GET'']\<rparr>))"
          "\<lparr>ApiWorker_Api = ''main'', ApiWorker_Path = ''/'', ApiWorker_Methods = [''GET'']\<rparr>"
          "NewServer ''f'' NewFunction"]
    TriggerStream_worker
      [of "\<lparr>incoming =
             [ClientMessage ''1'' (Some (ClientMessage_InitRequest (InitRequest (Some
                (InitRequest_Schedule
                   \<lparr>ScheduleWorker_Key = ''nightly'', ScheduleWorker_Cron = ''0 0 * * *''\<rparr>)))))],
            sent = []\<rparr>"
          "ClientMessage ''1'' (Some (ClientMessage_InitRequest (InitRequest (Some
             (InitRequest_Schedule
                \<lparr>ScheduleWorker_Key = ''nightly'', ScheduleWorker_Cron = ''0 0 * * *''\<rparr>)))))"
          "[]"
          "InitRequest (Some (InitRequest_Schedule
             \<lparr>ScheduleWorker_Key = ''nightly'', ScheduleWorker_Cron = ''0 0 * * *''\<rparr>))"
          _ "NewServer ''f'' NewFunction"
          "\<lparr>ScheduleWorker_Key = ''nightly'', ScheduleWorker_Cron = ''0 0 * * *''\<rparr>"]
    TriggerStream_worker
      [of "\<lparr>incoming =
             [ClientMessage ''1'' (Some (ClientMessage_InitRequest (InitRequest (Some
                (InitRequest_Subscription \<lparr>SubscriptionWorker_Topic = ''orders''\<rparr>)))))],
            sent = []\<rparr>"
          "ClientMessage ''1'' (Some (ClientMessage_InitRequest (InitRequest (Some
             (InitRequest_Subscription \<lparr>SubscriptionWorker_Topic = ''orders''\<rparr>)))))"
          "[]"
          "InitRequest (Some (InitRequest_Subscription \<lparr>SubscriptionWorker_Topic = ''orders''\<rparr>))"
          _ "NewServer ''f'' NewFunction" _
          "\<lparr>SubscriptionWorker_Topic = ''orders''\<rparr>"]
  by (simp add: GetInitRequest_def NewServer_def NewFunction_def)

text \<open>
  C6: when the first message is an InitRequest that carries no worker, TriggerStream
  returns no error and leaves the accumulator as it was, so it adds no trigger binding;
  on an accumulator that was created empty the three sets of bindings are empty
  afterwards.
\<close>

theorem TriggerStream_plain:
  assumes "incoming stream = cm # rest" and "GetInitRequest cm = Some ir"
    and "Worker ir = None"
  shows "TriggerStream s stream = (None, stream\<lparr>incoming := rest\<rparr>, Server_function s) \<and>
         apis (snd (snd (TriggerStream (NewServer n NewFunction) stream))) = {} \<and>
         schedules (snd (snd (TriggerStream (NewServer n NewFunction) stream))) = {} \<and>
         subscriptions (snd (snd (TriggerStream (NewServer n NewFunction) stream))) = {}"
  using assms by (simp add: TriggerStream_def Recv_def NewServer_def NewFunction_def)

theorem TriggerStream_plain_witness:
  "TriggerStream (NewServer ''f'' NewFunction)
     \<lparr>incoming = [ClientMessage ''1'' (Some (ClientMessage_InitRequest (InitRequest None)))],
      sent = []\<rparr> =
   (None, \<lparr>incoming = [], sent = []\<rparr>, NewFunction)"
  using TriggerStream_plain
    [of "\<lparr>incoming = [ClientMessage ''1'' (Some (ClientMessage_InitRequest (InitRequest None)))],
          sent = []\<rparr>"
        "ClientMessage ''1'' (Some (ClientMessage_InitRequest (InitRequest None)))" "[]"
        "InitRequest None" "NewServer ''f'' NewFunction"]
  by (simp add: GetInitRequest_def NewServer_def)

text \<open>
  C7, as stated, fails: Details does not look at what was declared. On a server whose
  accumulator is empty it returns connection metadata for an Api named x that was never
  declared.
\<close>

theorem Details_counterexample:
  "\<not> declared NewFunction ResourceType_Api ''x'' \<and>
   Details (NewServer ''f'' NewFunction)
     \<lparr>Details_Resource = Some \<lparr>Resource_Type = ResourceType_Api, Resource_Name = ''x''\<rparr>\<rparr> =
   Ok \<lparr>Response_Id = ''x'', Response_Provider = ''dev'', Response_Service = ''Api'',
       Response_ApiUrl = ''http://localhost:50051/apis/x''\<rparr>"
  by (simp add: declared_def NewFunction_def Details_def)

text \<open>
  C7, amended: Details answers by the kind of the queried resource alone, whatever was
  declared. For an Api it returns the provider dev, the service Api, the queried name as
  id and the local URL of that name; for every other kind it fails with the error
  "unsupported resource type" carrying the kind.
\<close>

theorem Details_by_kind:
  assumes "Details_Resource req = Some r"
  shows "Details s req =
     (if Resource_Type r = ResourceType_Api
      then Ok \<lparr>Response_Id = Resource_Name r, Response_Provider = ''dev'',
               Response_Service = ''Api'',
               Response_ApiUrl = ''http://localhost:50051/apis/'' @ Resource_Name r\<rparr>
      else Fail (Err (Errorf ''unsupported resource type %s'' (Resource_Type r))))"
  using assms by (cases "Resource_Type r") (simp_all add: Details_def)

theorem Details_by_kind_witness:
  "declared (AddBucket NewFunction ''uploads'' None) ResourceType_Bucket ''uploads'' \<and>
   Details (NewServer ''f'' (AddBucket NewFunction ''uploads'' None))
     \<lparr>Details_Resource = Some \<lparr>Resource_Type = ResourceType_Bucket, Resource_Name = ''uploads''\<rparr>\<rparr> =
   Fail (Err (Errorf ''unsupported resource type %s'' ResourceType_Bucket))"
  using Details_by_kind
    [of "\<lparr>Details_Resource =
           Some \<lparr>Resource_Type = ResourceType_Bucket, Resource_Name = ''uploads''\<rparr>\<rparr>"
        "\<lparr>Resource_Type = ResourceType_Bucket, Resource_Name = ''uploads''\<rparr>"
        "NewServer ''f'' (AddBucket NewFunction ''uploads'' None)"]
  by (simp add: declared_def AddBucket_def AddResource_def)

section \<open>Properties of the build passes\<close>

subsection \<open>Temporary files and the build log\<close>


lemma builds_run_deferred: "builds (run_deferred ds w) = builds w"
  unfolding run_deferred_def
  by (induction ds arbitrary: w) (auto simp: os_Remove_def)









lemma new_builds_append: "builds w' = builds w @ new \<Longrightarrow> new_builds w w' = new"
  by (simp add: new_builds_def)

lemma builds_CreateBaseDev_functions:
  "CreateBaseDev_functions env s fs m w ds = (r, w', ds') \<Longrightarrow>
   \<exists>new. builds w' = builds w @ new \<and> distinct (map (lang_of \<circ> origin) new) \<and>
     (\<forall>c \<in> set new. m (lang_of (origin c)) = None \<and> origin c \<in> Function_Handler ` set fs)"
proof (induction fs arbitrary: m w ds)
  case Nil
  then show ?case by simp
next
  case (Cons f fs)
  show ?case
  proof (cases "NewRunTimeFromHandler env (Function_Handler f)")
    case (Fail x)
    with Cons.prems show ?thesis by simp
  next
    case rt: (Ok rt)
    show ?thesis
    proof (cases "m (lang_of (Function_Handler f)) \<noteq> None")
      case True
      with Cons.prems rt have "CreateBaseDev_functions env s fs m w ds = (r, w', ds')"
        by simp
      from Cons.IH [OF this] show ?thesis by auto
    next
      case new: False
      show ?thesis
      proof (cases "CreateTemp env (Project_Dir s) (files w)")
        case (Fail x)
        with Cons.prems rt new show ?thesis by simp
      next
        case fh: (Ok fh)
        show ?thesis
        proof (cases "FunctionDockerfileForCodeAsConfig env rt fh")
          case (Fail x)
          with Cons.prems rt new fh have "w' = create_file fh w" by simp
          then show ?thesis by (simp add: create_file_def)
        next
          case df: (Ok u)
          define c where "c = dev_call env s f rt fh"
          have oc: "origin c = Function_Handler f" by (simp add: c_def dev_call_def)
          have bc: "builds (log_build c (create_file fh w)) = builds w @ [c]"
            by (simp add: log_build_def create_file_def)
          show ?thesis
          proof (cases "do_Build env c")
            case (Fail x)
            with Cons.prems rt new fh df have "w' = log_build c (create_file fh w)"
              by (simp add: c_def)
            with bc oc new show ?thesis by simp
          next
            case (Ok v)
            with Cons.prems rt new fh df
            have "CreateBaseDev_functions env s fs
                    (m(lang_of (Function_Handler f) \<mapsto> DevImageName env rt))
                    (log_build c (create_file fh w)) (fh # ds) = (r, w', ds')"
              by (simp add: c_def)
            from Cons.IH [OF this] obtain new' where
              n: "builds w' = builds (log_build c (create_file fh w)) @ new'"
              "distinct (map (lang_of \<circ> origin) new')"
              "\<forall>c' \<in> set new'.
                 (m(lang_of (Function_Handler f) \<mapsto> DevImageName env rt)) (lang_of (origin c')) = None \<and>
                 origin c' \<in> Function_Handler ` set fs"
              by blast
            from n(3) have other: "\<forall>c' \<in> set new'. lang_of (origin c') \<noteq> lang_of (Function_Handler f) \<and>
                m (lang_of (origin c')) = None \<and> origin c' \<in> Function_Handler ` set fs"
              by (auto split: if_splits)
            have "builds w' = builds w @ (c # new')" using n(1) bc by simp
            moreover have "distinct (map (lang_of \<circ> origin) (c # new'))"
              using n(2) other oc by auto
            moreover have "\<forall>c' \<in> set (c # new'). m (lang_of (origin c')) = None \<and>
                origin c' \<in> Function_Handler ` set (f # fs)"
              using other oc new by auto
            ultimately show ?thesis by blast
          qed
        qed
      qed
    qed
  qed
qed

lemma Create_functions_abort:
  assumes fail: "\<And>fh. do_Build env (function_call env s t f fh) = Fail x"
  shows "Create_functions env s t (pre @ f # post) w ds = (r, w', ds') \<Longrightarrow>
         (\<exists>y. r = Fail y) \<and>
         (\<exists>new. builds w' = builds w @ new \<and>
            prefix (map origin new) (map Function_Handler (pre @ [f])) \<and>
            (length new = Suc (length pre) \<longrightarrow> r = Fail x))"
proof (induction pre arbitrary: w ds)
  case Nil
  show ?case
  proof (cases "CreateTemp env (Project_Dir s) (files w)")
    case (Fail y)
    with Nil show ?thesis by auto
  next
    case fh: (Ok fh)
    show ?thesis
    proof (cases "NewRunTimeFromHandler env (Function_Handler f)")
      case (Fail y)
      with Nil fh have "r = Fail y" "w' = create_file fh w" by auto
      then show ?thesis by (simp add: create_file_def)
    next
      case rt: (Ok rt)
      show ?thesis
      proof (cases "FunctionDockerfile env rt (Project_Dir s) (VersionString env f s)
                      (Target_Provider t) fh")
        case (Fail y)
        with Nil fh rt have "r = Fail y" "w' = create_file fh w" by auto
        then show ?thesis by (simp add: create_file_def)
      next
        case df: (Ok u)
        with Nil fh rt fail [of fh]
        have "r = Fail x" "w' = log_build (function_call env s t f fh) (create_file fh w)"
          by auto
        then have "r = Fail x" "builds w' = builds w @ [function_call env s t f fh]"
          by (simp_all add: log_build_def create_file_def)
        moreover have "origin (function_call env s t f fh) = Function_Handler f"
          by (simp add: function_call_def)
        ultimately show ?thesis by simp
      qed
    qed
  qed
next
  case (Cons g pre)
  show ?case
  proof (cases "CreateTemp env (Project_Dir s) (files w)")
    case (Fail y)
    with Cons.prems show ?thesis by auto
  next
    case fh: (Ok fh)
    show ?thesis
    proof (cases "NewRunTimeFromHandler env (Function_Handler g)")
      case (Fail y)
      with Cons.prems fh have "r = Fail y" "w' = create_file fh w" by auto
      then show ?thesis by (simp add: create_file_def)
    next
      case rt: (Ok rt)
      show ?thesis
      proof (cases "FunctionDockerfile env rt (Project_Dir s) (VersionString env g s)
                      (Target_Provider t) fh")
        case (Fail y)
        with Cons.prems fh rt have "r = Fail y" "w' = create_file fh w" by auto
        then show ?thesis by (simp add: create_file_def)
      next
        case df: (Ok u)
        define c where "c = function_call env s t g fh"
        have oc: "origin c = Function_Handler g" by (simp add: c_def function_call_def)
        have bc: "builds (log_build c (create_file fh w)) = builds w @ [c]"
          by (simp add: log_build_def create_file_def)
        show ?thesis
        proof (cases "do_Build env c")
          case (Fail y)
          with Cons.prems fh rt df have "r = Fail y" "w' = log_build c (create_file fh w)"
            by (auto simp: c_def)
          with bc oc show ?thesis by simp
        next
          case (Ok v)
          with Cons.prems fh rt df
          have "Create_functions env s t (pre @ f # post) (log_build c (create_file fh w))
                  (fh # ds) = (r, w', ds')"
            by (simp add: c_def)
          from Cons.IH [OF this] obtain y new' where
            n: "r = Fail y" "builds w' = builds (log_build c (create_file fh w)) @ new'"
            "prefix (map origin new') (map Function_Handler (pre @ [f]))"
            "length new' = Suc (length pre) \<longrightarrow> r = Fail x"
            by blast
          have "builds w' = builds w @ (c # new')" using n(2) bc by simp
          moreover have "prefix (map origin (c # new')) (map Function_Handler ((g # pre) @ [f]))"
            using n(3) oc by simp
          moreover have "length (c # new') = Suc (length (g # pre)) \<longrightarrow> r = Fail x"
            using n(4) by simp
          ultimately show ?thesis using n(1) by blast
        qed
      qed
    qed
  qed
qed

subsection \<open>The example project\<close>

lemma lang_a: "lang_of ''functions/a.ts'' = ''ts''"
  by (simp add: lang_of_def Ext_def)

lemma lang_b: "lang_of ''functions/b.ts'' = ''ts''"
  by (simp add: lang_of_def Ext_def)

lemma Create_example:
  "Create example_env example_project example_target empty_world =
   (Fail (Err (External ''build failed'')),
    \<lparr>files = {},
     builds = [\<lparr>origin = ''functions/a.ts'', dockerfile = TempDockerfile 1,
                contextDir = ''dir'', tag = ''a'', buildArgs = [(''PROVIDER'', ''aws'')]\<rparr>]\<rparr>)"
  by (simp add: Create_def example_env_def example_project_def example_target_def
      empty_world_def do_Build_def function_call_def create_file_def log_build_def
      run_deferred_def os_Remove_def)

lemma CreateBaseDev_example:
  "CreateBaseDev example_env example_project empty_world =
   (Ok (),
    \<lparr>files = {},
     builds = [\<lparr>origin = ''functions/a.ts'', dockerfile = TempDockerfile 1,
                contextDir = ''dir'', tag = ''ts-dev'', buildArgs = []\<rparr>]\<rparr>)"
  by (simp add: CreateBaseDev_def example_env_def example_project_def
      empty_world_def do_Build_def dev_call_def create_file_def log_build_def
      run_deferred_def os_Remove_def lang_a lang_b)

subsection \<open>Failure of one function\<close>

text \<open>
  C5, as stated, fails for the pass in the source: Create returns at the first error. In
  the example project the build of function a fails and the build of function b would
  succeed; the pass ends with the error of a alone, and the only call to Build is the one
  for a, so b is never built.
\<close>

theorem Create_collects_counterexample:
  "fst (Create example_env example_project example_target empty_world) =
     Fail (Err (External ''build failed'')) \<and>
   map origin (builds (snd (Create example_env example_project example_target empty_world))) =
     [''functions/a.ts''] \<and>
   do_Build example_env
     (function_call example_env example_project example_target
        \<lparr>Function_Name = ''b'', Function_Handler = ''functions/b.ts''\<rparr> 2) = Ok ()"
  by (simp add: Create_example)
    (simp add: example_env_def do_Build_def function_call_def)

text \<open>
  C5, amended: in the deployable-image pass a single function's build failure aborts the
  batch. When the build of a function fails, Create ends in a failure, it has made calls
  to Build only for functions up to and including that one, in their order, so no later
  function and no container is built, and when the build of that function was reached the
  result is its error.
\<close>

theorem Create_aborts_on_failure:
  assumes "Project_Functions s = pre @ f # post"
    and "\<forall>fh. do_Build env (function_call env s t f fh) = Fail x"
  shows "(\<exists>y. fst (Create env s t w) = Fail y) \<and>
         prefix (map origin (new_builds w (snd (Create env s t w))))
           (map Function_Handler (pre @ [f])) \<and>
         (length (new_builds w (snd (Create env s t w))) = Suc (length pre) \<longrightarrow>
            fst (Create env s t w) = Fail x)"
proof (cases "Discover env")
  case (Fail y)
  then show ?thesis by (simp add: Create_def new_builds_def)
next
  case (Ok u)
  obtain r w1 ds where cf: "Create_functions env s t (Project_Functions s) w [] = (r, w1, ds)"
    by (cases "Create_functions env s t (Project_Functions s) w []") auto
  from assms(2) have fail: "\<And>fh. do_Build env (function_call env s t f fh) = Fail x" by simp
  from cf assms(1) have "Create_functions env s t (pre @ f # post) w [] = (r, w1, ds)" by simp
  from Create_functions_abort [OF fail this] obtain y new where
    n: "r = Fail y" "builds w1 = builds w @ new"
    "prefix (map origin new) (map Function_Handler (pre @ [f]))"
    "length new = Suc (length pre) \<longrightarrow> r = Fail x"
    by blast
  have c: "Create env s t w = (Fail y, run_deferred ds w1)"
    using Ok cf n(1) by (simp add: Create_def)
  then have "builds (snd (Create env s t w)) = builds w @ new"
    using n(2) by (simp add: builds_run_deferred)
  from new_builds_append [OF this] have "new_builds w (snd (Create env s t w)) = new" .
  with c n show ?thesis by simp
qed

theorem Create_aborts_on_failure_witness:
  "Project_Functions example_project =
     [] @ \<lparr>Function_Name = ''a'', Function_Handler = ''functions/a.ts''\<rparr> #
       [\<lparr>Function_Name = ''b'', Function_Handler = ''functions/b.ts''\<rparr>] \<and>
   (\<forall>fh. do_Build example_env
      (function_call example_env example_project example_target
         \<lparr>Function_Name = ''a'', Function_Handler = ''functions/a.ts''\<rparr> fh) =
      Fail (Err (External ''build failed''))) \<and>
   (\<exists>y. fst (Create example_env example_project example_target empty_world) = Fail y) \<and>
   prefix
     (map origin
        (new_builds empty_world
           (snd (Create example_env example_project example_target empty_world))))
     [''functions/a.ts'']"
proof -
  have p: "Project_Functions example_project =
     [] @ \<lparr>Function_Name = ''a'', Function_Handler = ''functions/a.ts''\<rparr> #
       [\<lparr>Function_Name = ''b'', Function_Handler = ''functions/b.ts''\<rparr>]"
    by (simp add: example_project_def)
  have b: "\<forall>fh. do_Build example_env
      (function_call example_env example_project example_target
         \<lparr>Function_Name = ''a'', Function_Handler = ''functions/a.ts''\<rparr> fh) =
      Fail (Err (External ''build failed''))"
    by (simp add: example_env_def do_Build_def function_call_def)
  from Create_aborts_on_failure [OF p b, of empty_world] p b show ?thesis by simp
qed

subsection \<open>Removal of the build descriptors\<close>



subsection \<open>One dev image for each language\<close>

text \<open>
  C9: the calls to Build that the dev-image pass makes are each made for a handler of
  the project, and no two of them are for handlers of the same language, the language
  being the extension of the handler file without its dot. So at most one dev image is
  built for each language, and a handler whose language already has an image is skipped.
\<close>

theorem one_dev_image_per_language:
  "builds (snd (CreateBaseDev env s w)) = builds w @ new_builds w (snd (CreateBaseDev env s w)) \<and>
   distinct (map (lang_of \<circ> origin) (new_builds w (snd (CreateBaseDev env s w)))) \<and>
   origin ` set (new_builds w (snd (CreateBaseDev env s w))) \<subseteq>
     Function_Handler ` set (Project_Functions s)"
proof (cases "Discover env")
  case (Fail x)
  then show ?thesis by (simp add: CreateBaseDev_def new_builds_def)
next
  case (Ok u)
  obtain r w1 ds where
    cf: "CreateBaseDev_functions env s (Project_Functions s) Map.empty w [] = (r, w1, ds)"
    by (cases "CreateBaseDev_functions env s (Project_Functions s) Map.empty w []") auto
  from builds_CreateBaseDev_functions [OF cf] obtain new where
    n: "builds w1 = builds w @ new" "distinct (map (lang_of \<circ> origin) new)"
    "\<forall>c \<in> set new. origin c \<in> Function_Handler ` set (Project_Functions s)"
    by blast
  have "snd (CreateBaseDev env s w) = run_deferred ds w1"
    using Ok cf by (simp add: CreateBaseDev_def)
  then have b: "builds (snd (CreateBaseDev env s w)) = builds w @ new"
    using n(1) by (simp add: builds_run_deferred)
  from new_builds_append [OF b] have "new_builds w (snd (CreateBaseDev env s w)) = new" .
  with b n show ?thesis by auto
qed

theorem one_dev_image_per_language_witness:
  "distinct (map (lang_of \<circ> origin)
     (new_builds empty_world (snd (CreateBaseDev example_env example_project empty_world)))) \<and>
   map origin
     (new_builds empty_world (snd (CreateBaseDev example_env example_project empty_world))) =
     [''functions/a.ts''] \<and>
   map (lang_of \<circ> Function_Handler) (Project_Functions example_project) = [''ts'', ''ts'']"
proof -
  have e: "new_builds empty_world (snd (CreateBaseDev example_env example_project empty_world)) =
      [\<lparr>origin = ''functions/a.ts'', dockerfile = TempDockerfile 1,
        contextDir = ''dir'', tag = ''ts-dev'', buildArgs = []\<rparr>]"
    by (simp add: CreateBaseDev_example new_builds_def) (simp add: empty_world_def)
  from one_dev_image_per_language [of example_env example_project empty_world]
  show ?thesis unfolding e by (simp add: example_project_def lang_a lang_b)
qed

section \<open>Properties of the merge\<close>

lemma merge_into_apply:
  "merge_into g cs k =
     (if \<exists>c \<in> set cs. (claim_kind c, claim_name c) = k
      then Some (policy_set g k \<union>
                 {(claim_function c, claim_mode c) | c. c \<in> set cs \<and> (claim_kind c, claim_name c) = k})
      else g k)"
proof (induction cs arbitrary: g)
  case Nil
  then show ?case by (simp add: merge_into_def)
next
  case (Cons c cs)
  have "merge_into g (c # cs) k = merge_into (add_claim c g) cs k"
    by (simp add: merge_into_def)
  also have "\<dots> = (if \<exists>c' \<in> set cs. (claim_kind c', claim_name c') = k
      then Some (policy_set (add_claim c g) k \<union>
                 {(claim_function c', claim_mode c') | c'. c' \<in> set cs \<and> (claim_kind c', claim_name c') = k})
      else add_claim c g k)"
    by (rule Cons.IH)
  finally show ?case
    by (auto simp: add_claim_def policy_set_def)
qed

lemma merge_claims_set: "set xs = set ys \<Longrightarrow> merge_claims xs = merge_claims ys"
  by (rule ext) (simp add: merge_claims_def merge_into_apply)

lemma merge_into_again: "merge_into (merge_claims xs) xs = merge_claims xs"
  by (rule ext) (auto simp: merge_claims_def merge_into_apply policy_set_def)

text \<open>
  C3: the graph that the merge produces depends only on the set of claims. Two lists of
  claims with the same elements, in any order and with any repetitions, give the same
  graph; in particular claims gathered in two batches give the same graph whichever batch
  comes first, merging a list of claims twice gives the graph of merging it once, and
  merging the claims again into the graph they produced leaves that graph as it is.
\<close>

theorem merge_commutative_idempotent:
  "(set xs = set ys \<longrightarrow> merge_claims xs = merge_claims ys) \<and>
   merge_claims (xs @ ys) = merge_claims (ys @ xs) \<and>
   merge_claims (xs @ xs) = merge_claims xs \<and>
   merge_into (merge_claims xs) xs = merge_claims xs"
  using merge_claims_set [of xs ys] merge_claims_set [of "xs @ ys" "ys @ xs"]
    merge_claims_set [of "xs @ xs" xs] merge_into_again [of xs]
  by auto

theorem merge_commutative_idempotent_witness:
  "merge_claims
     [\<lparr>claim_kind = ResourceType_Bucket, claim_name = ''uploads'', claim_function = ''A'',
       claim_mode = ''read''\<rparr>,
      \<lparr>claim_kind = ResourceType_Bucket, claim_name = ''uploads'', claim_function = ''B'',
       claim_mode = ''write''\<rparr>] =
   merge_claims
     [\<lparr>claim_kind = ResourceType_Bucket, claim_name = ''uploads'', claim_function = ''B'',
       claim_mode = ''write''\<rparr>,
      \<lparr>claim_kind = ResourceType_Bucket, claim_name = ''uploads'', claim_function = ''A'',
       claim_mode = ''read''\<rparr>,
      \<lparr>claim_kind = ResourceType_Bucket, claim_name = ''uploads'', claim_function = ''B'',
       claim_mode = ''write''\<rparr>] \<and>
   merge_claims
     [\<lparr>claim_kind = ResourceType_Bucket, claim_name = ''uploads'', claim_function = ''A'',
       claim_mode = ''read''\<rparr>,
      \<lparr>claim_kind = ResourceType_Bucket, claim_name = ''uploads'', claim_function = ''B'',
       claim_mode = ''write''\<rparr>] (ResourceType_Bucket, ''uploads'') =
     Some {(''A'', ''read''), (''B'', ''write'')}"
  using merge_commutative_idempotent
    [of "[\<lparr>claim_kind = ResourceType_Bucket, claim_name = ''uploads'', claim_function = ''A'',
       claim_mode = ''read''\<rparr>,
      \<lparr>claim_kind = ResourceType_Bucket, claim_name = ''uploads'', claim_function = ''B'',
       claim_mode = ''write''\<rparr>]"
     "[\<lparr>claim_kind = ResourceType_Bucket, claim_name = ''uploads'', claim_function = ''B'',
       claim_mode = ''write''\<rparr>,
      \<lparr>claim_kind = ResourceType_Bucket, claim_name = ''uploads'', claim_function = ''A'',
       claim_mode = ''read''\<rparr>,
      \<lparr>claim_kind = ResourceType_Bucket, claim_name = ''uploads'', claim_function = ''B'',
       claim_mode = ''write''\<rparr>]"]
  by (auto simp: merge_claims_def merge_into_def add_claim_def policy_set_def)

section \<open>Properties of the table output\<close>

lemma fold_row:
  "fold (\<lambda>field row. if length row \<le> n then row @ [field] else row) fs row =
     row @ take (Suc n - length row) fs"
proof (induction fs arbitrary: row)
  case Nil
  then show ?case by simp
next
  case (Cons x fs)
  show ?case
  proof (cases "length row \<le> n")
    case True
    then have "Suc n - length row = Suc (n - length row)" by simp
    with True Cons.IH [of "row @ [x]"] show ?thesis by simp
  next
    case False
    with Cons.IH [of row] show ?thesis by simp
  qed
qed

lemma struct_row_take: "struct_row names k v = k # take (length names) (Value_Fields v)"
  by (simp add: struct_row_def fold_row)

lemma hd_rows_of:
  "map hd (rows_of names object k) =
     (if not_yet_supported (Value_Kind (MapIndex object k)) then [] else [k])"
  by (simp add: rows_of_def Let_def struct_row_take not_yet_supported_def)

lemma hd_concat_rows:
  "map hd (concat (map (rows_of names object) ks)) =
     filter (\<lambda>k. \<not> not_yet_supported (Value_Kind (MapIndex object k))) ks"
  by (induction ks) (simp_all add: hd_rows_of)

lemma sort_key_unique:
  assumes "distinct xs" and "distinct ys" and "set xs = set ys" and "inj_on f (set xs)"
  shows "sort_key f xs = sort_key f ys"
proof -
  have dx: "distinct (map f (sort_key f xs))"
    using assms(1,4) by (simp add: distinct_map)
  have dy: "distinct (map f (sort_key f ys))"
    using assms(2,3,4) by (simp add: distinct_map)
  have "set (map f (sort_key f xs)) = set (map f (sort_key f ys))"
    using assms(3) by simp
  with dx dy have "map f (sort_key f xs) = map f (sort_key f ys)"
    by (intro sorted_distinct_set_unique) simp_all
  moreover have "inj_on f (set (sort_key f xs) \<union> set (sort_key f ys))"
    using assms(3,4) by simp
  ultimately show ?thesis by (simp add: inj_on_map_eq_map)
qed

lemma string_keys_inj:
  "string_keys a \<Longrightarrow> inj_on Value_String (set (map fst (Map_Entries a)))"
proof (rule inj_onI)
  fix x y
  assume k: "string_keys a" and x: "x \<in> set (map fst (Map_Entries a))"
    and y: "y \<in> set (map fst (Map_Entries a))" and e: "Value_String x = Value_String y"
  from k x obtain s where "x = StringValue s" unfolding string_keys_def by blast
  moreover from k y obtain s' where "y = StringValue s'" unfolding string_keys_def by blast
  ultimately show "x = y" using e by simp
qed

lemma same_map_printMap:
  assumes "string_keys a" and "same_map a b"
  shows "printMap a = printMap b"
proof -
  from assms(2) have el: "Map_Elem a = Map_Elem b"
    and da: "distinct (map fst (Map_Entries a))"
    and db: "distinct (map fst (Map_Entries b))"
    and se: "set (Map_Entries a) = set (Map_Entries b)"
    by (simp_all add: same_map_def)
  from da db se have "map_of (Map_Entries a) = map_of (Map_Entries b)"
    by (simp add: map_of_inject_set)
  then have idx: "MapIndex a = MapIndex b"
    by (rule_tac ext) (simp add: MapIndex_def)
  then have rows: "rows_of names a = rows_of names b" for names
    by (rule_tac ext) (simp add: rows_of_def)
  from se have "set (map fst (Map_Entries a)) = set (map fst (Map_Entries b))"
    by simp
  from sort_key_unique [OF da db this string_keys_inj [OF assms(1)]]
  have "sort_key Value_String (map fst (Map_Entries a)) =
        sort_key Value_String (map fst (Map_Entries b))" .
  with el rows show ?thesis by (simp add: printMap_def)
qed

text \<open>
  C10, as stated, fails. A map from strings to slices with one key gives a table with no
  row, since a value of a kind that is not yet supported is left out. A map from integers
  to strings gives its rows in the order of the iteration: the string of every integer
  key is the same text, so the stable sort moves nothing, and two iteration orders of the
  same map give two different tables.
\<close>

theorem printMap_counterexample:
  "length (Map_Entries
     \<lparr>Map_Elem = Type reflect_Slice [],
      Map_Entries = [(StringValue ''a'', OtherValue reflect_Slice ''[]string'' ''[x]'')]\<rparr>) = 1 \<and>
   snd (printMap
     \<lparr>Map_Elem = Type reflect_Slice [],
      Map_Entries = [(StringValue ''a'', OtherValue reflect_Slice ''[]string'' ''[x]'')]\<rparr>) = [] \<and>
   same_map
     \<lparr>Map_Elem = Type reflect_String [],
      Map_Entries = [(OtherValue reflect_Int ''int'' ''1'', StringValue ''x''),
                     (OtherValue reflect_Int ''int'' ''2'', StringValue ''y'')]\<rparr>
     \<lparr>Map_Elem = Type reflect_String [],
      Map_Entries = [(OtherValue reflect_Int ''int'' ''2'', StringValue ''y''),
                     (OtherValue reflect_Int ''int'' ''1'', StringValue ''x'')]\<rparr> \<and>
   printMap
     \<lparr>Map_Elem = Type reflect_String [],
      Map_Entries = [(OtherValue reflect_Int ''int'' ''1'', StringValue ''x''),
                     (OtherValue reflect_Int ''int'' ''2'', StringValue ''y'')]\<rparr> \<noteq>
   printMap
     \<lparr>Map_Elem = Type reflect_String [],
      Map_Entries = [(OtherValue reflect_Int ''int'' ''2'', StringValue ''y''),
                     (OtherValue reflect_Int ''int'' ''1'', StringValue ''x'')]\<rparr>"
  by (auto simp: printMap_def namesFrom_def not_yet_supported_def rows_of_def MapIndex_def
      same_map_def)

text \<open>
  C10, amended: for every map with string keys printed in the table format, the rows are
  ordered by ascending string value of the keys, each row starts with its key, and there
  is one row for each key whose value is a struct or of a simple kind and none for a key
  whose value is of a kind not yet supported (slice, array, func, chan, interface, map);
  two iteration orders of the same map give the same header and the same rows.
\<close>

theorem printMap_string_keys:
  assumes "string_keys a" and "same_map a b"
  shows "printMap a = printMap b \<and>
         map hd (snd (printMap a)) =
           filter (\<lambda>k. \<not> not_yet_supported (Value_Kind (MapIndex a k)))
             (sort_key Value_String (map fst (Map_Entries a))) \<and>
         sorted (map (Value_String \<circ> hd) (snd (printMap a)))"
proof -
  have h: "map hd (snd (printMap a)) =
           filter (\<lambda>k. \<not> not_yet_supported (Value_Kind (MapIndex a k)))
             (sort_key Value_String (map fst (Map_Entries a)))"
    by (simp add: printMap_def Let_def hd_concat_rows)
  have "sorted (map Value_String (sort_key Value_String (map fst (Map_Entries a))))"
    by simp
  then have "sorted (map Value_String (map hd (snd (printMap a))))"
    unfolding h by (rule sorted_filter)
  then have "sorted (map (Value_String \<circ> hd) (snd (printMap a)))" by simp
  with h same_map_printMap [OF assms] show ?thesis by simp
qed

theorem printMap_string_keys_witness:
  "string_keys
     \<lparr>Map_Elem = Type reflect_String [],
      Map_Entries = [(StringValue ''b'', StringValue ''y''), (StringValue ''a'', StringValue ''x'')]\<rparr> \<and>
   same_map
     \<lparr>Map_Elem = Type reflect_String [],
      Map_Entries = [(StringValue ''b'', StringValue ''y''), (StringValue ''a'', StringValue ''x'')]\<rparr>
     \<lparr>Map_Elem = Type reflect_String [],
      Map_Entries = [(StringValue ''a'', StringValue ''x''), (StringValue ''b'', StringValue ''y'')]\<rparr> \<and>
   printMap
     \<lparr>Map_Elem = Type reflect_String [],
      Map_Entries = [(StringValue ''b'', StringValue ''y''), (StringValue ''a'', StringValue ''x'')]\<rparr> =
   printMap
     \<lparr>Map_Elem = Type reflect_String [],
      Map_Entries = [(StringValue ''a'', StringValue ''x''), (StringValue ''b'', StringValue ''y'')]\<rparr> \<and>
   map hd (snd (printMap
     \<lparr>Map_Elem = Type reflect_String [],
      Map_Entries = [(StringValue ''b'', StringValue ''y''), (StringValue ''a'', StringValue ''x'')]\<rparr>)) =
   [StringValue ''a'', StringValue ''b'']"
proof -
  define a where "a =
     \<lparr>Map_Elem = Type reflect_String [],
      Map_Entries = [(StringValue ''b'', StringValue ''y''), (StringValue ''a'', StringValue ''x'')]\<rparr>"
  define b where "b =
     \<lparr>Map_Elem = Type reflect_String [],
      Map_Entries = [(StringValue ''a'', StringValue ''x''), (StringValue ''b'', StringValue ''y'')]\<rparr>"
  have k: "string_keys a"
    by (simp add: a_def string_keys_def)
  have m: "same_map a b"
    by (auto simp: a_def b_def same_map_def)
  from printMap_string_keys [OF k m]
  have e: "printMap a = printMap b"
    and h: "map hd (snd (printMap a)) =
           filter (\<lambda>k. \<not> not_yet_supported (Value_Kind (MapIndex a k)))
             (sort_key Value_String (map fst (Map_Entries a)))"
    by blast+
  have "filter (\<lambda>k. \<not> not_yet_supported (Value_Kind (MapIndex a k)))
          (sort_key Value_String (map fst (Map_Entries a))) =
        [StringValue ''a'', StringValue ''b'']"
    by (simp add: a_def MapIndex_def not_yet_supported_def)
  with h have "map hd (snd (printMap a)) = [StringValue ''a'', StringValue ''b'']"
    by simp
  with k m e show ?thesis unfolding a_def b_def by blast
qed

end
